theory Spec2Isabelle
  imports Main
begin

section \<open>The hello-ops service: two route handlers over a web framework\<close>

text \<open>
  The program is \<^verbatim>\<open>app/main.py\<close>:
  \<^verbatim>\<open>
  app = FastAPI(title="hello_ops")

  @app.get("/health")
  def health():
      return {"status": "ok"}

  @app.get("/hello")
  def hello(name: str):
      return {"message": f"hello {name}"}
  \<close>
  Two things are modelled: the module itself (the object \<open>app\<close>, the two decorated
  functions), translated from the code, and the part of the web framework that stands
  between a request and a handler, which is not in the sources and is modelled from the
  specification and from \<^verbatim>\<open>tests/test_health.py\<close>.
\<close>

subsection \<open>Strings and dictionaries\<close>

text \<open>
  A Python \<^verbatim>\<open>str\<close> is a sequence of Unicode code points, and its length counts code
  points. It is modelled as a list of numbers, so that a name may hold any character;
  \<open>lit\<close> embeds the ASCII literals of the program text. A \<^verbatim>\<open>dict\<close> from strings to
  strings is a finite map, compared by content as Python's \<^verbatim>\<open>==\<close> does.
\<close>

type_synonym codepoint = nat
type_synonym str = "codepoint list"
type_synonym dict = "str \<rightharpoonup> str"

definition lit :: "string \<Rightarrow> str" where
  "lit s = map of_char s"

subsection \<open>The application object\<close>

text \<open>
  \<^verbatim>\<open>FastAPI(title=...)\<close> creates an application on which no route has been defined
  yet, and each \<^verbatim>\<open>@app.get(path)\<close> appends one route for the method GET, the given
  path and the decorated function. The table \<open>routes\<close> holds the routes the module
  defines; the pages the framework serves by itself are not part of it. The module's
  top level runs the two decorators in the order of the file; the functions are named
  by the constructors of \<open>handler\<close>.
\<close>

datatype http_method = GET | HEAD | POST | PUT | PATCH | DELETE | OPTIONS | TRACE | CONNECT

datatype handler = Health | Hello

record route =
  rmethod :: http_method
  rpath :: str
  endpoint :: handler

record fastapi =
  title :: str
  routes :: "route list"

definition FastAPI :: "str \<Rightarrow> fastapi" where
  "FastAPI t = \<lparr>title = t, routes = []\<rparr>"

definition app_get :: "str \<Rightarrow> handler \<Rightarrow> fastapi \<Rightarrow> fastapi" where
  "app_get p f a = a\<lparr>routes := routes a @ [\<lparr>rmethod = GET, rpath = p, endpoint = f\<rparr>]\<rparr>"

definition app :: fastapi where
  "app = app_get (lit ''/hello'') Hello
           (app_get (lit ''/health'') Health
              (FastAPI (lit ''hello_ops'')))"

subsection \<open>The handlers\<close>

text \<open>
  Each handler is a single \<^verbatim>\<open>return\<close> of a dictionary literal; \<open>health\<close> has no
  parameter and \<open>hello\<close> has one. They are the functions below. The f-string
  \<^verbatim>\<open>f"hello {name}"\<close> of a \<^verbatim>\<open>str\<close> is the literal followed by the value.
\<close>

definition health :: dict where
  "health = [lit ''status'' \<mapsto> lit ''ok'']"

definition hello :: "str \<Rightarrow> dict" where
  "hello name = [lit ''message'' \<mapsto> lit ''hello '' @ name]"

subsection \<open>Requests, responses and the framework between them\<close>

text \<open>
  A request carries its method, its path and its query parameters, as the map from
  parameter names to values that the framework hands to parameter binding. The record
  is extensible: every statement below holds for requests with any further content
  (headers, a body).

  A response carries its status code and its content: the dictionary a handler
  returned, or the list of detail entries of a validation error, each with the
  location of the offending input and a message.
\<close>

record request =
  meth :: http_method
  path :: str
  query :: dict

record detail_entry =
  loc :: "str list"
  msg :: str

datatype content = Json dict | Detail "detail_entry list"

record response =
  status :: nat
  body :: content

text \<open>
  Modelled from the spec: the framework's request handling (the FastAPI library, which
  the sources import and do not contain). The specification gives its behaviour on
  this application: a handler's result is sent with status 200; \<open>hello\<close> requires the
  query parameter \<open>name\<close>, which the signature \<^verbatim>\<open>name: str\<close> declares without a
  default, and a request without it is answered with status 422 and a validation
  error whose first detail entry has the message \<^verbatim>\<open>Field required\<close> (the test
  \<^verbatim>\<open>test_hello_missing_name\<close> reads it as \<^verbatim>\<open>body["detail"][0]["msg"]\<close>). The entry's
  further keys are not modelled beyond the location of the parameter. A request that
  matches no route of the table is not the application's to answer: \<open>serve\<close> returns
  \<open>None\<close> for it, and the framework's own reply is left out. So is whatever the
  framework keeps on the application object while it runs: \<open>serve\<close> reads the route
  table and gives the response, and nothing here speaks of the state of the process.
\<close>

definition missing :: "str \<Rightarrow> detail_entry" where
  "missing p = \<lparr>loc = [lit ''query'', p], msg = lit ''Field required''\<rparr>"

fun bind_call :: "handler \<Rightarrow> dict \<Rightarrow> detail_entry list + dict" where
  "bind_call Health q = Inr health"
| "bind_call Hello q =
     (case q (lit ''name'') of
        None \<Rightarrow> Inl [missing (lit ''name'')]
      | Some name \<Rightarrow> Inr (hello name))"

definition matches :: "'a request_scheme \<Rightarrow> route \<Rightarrow> bool" where
  "matches req r = (rmethod r = meth req \<and> rpath r = path req)"

definition serve :: "fastapi \<Rightarrow> 'a request_scheme \<Rightarrow> response option" where
  "serve a req =
     (case find (matches req) (routes a) of
        None \<Rightarrow> None
      | Some r \<Rightarrow>
          (case bind_call (endpoint r) (query req) of
             Inl errs \<Rightarrow> Some \<lparr>status = 422, body = Detail errs\<rparr>
           | Inr d \<Rightarrow> Some \<lparr>status = 200, body = Json d\<rparr>))"

section \<open>Properties\<close>

subsection \<open>Shared facts\<close>

lemma routes_app:
  "routes app = [\<lparr>rmethod = GET, rpath = lit ''/health'', endpoint = Health\<rparr>,
                 \<lparr>rmethod = GET, rpath = lit ''/hello'', endpoint = Hello\<rparr>]"
  by (simp add: app_def app_get_def FastAPI_def)

lemma health_neq_hello: "lit ''/health'' \<noteq> lit ''/hello''"
  by (simp add: lit_def)

lemma serve_health:
  assumes "meth req = GET" and "path req = lit ''/health''"
  shows "serve app req = Some \<lparr>status = 200, body = Json [lit ''status'' \<mapsto> lit ''ok'']\<rparr>"
  using assms by (simp add: serve_def routes_app matches_def health_def)

lemma serve_hello_present:
  assumes "meth req = GET" and "path req = lit ''/hello''" and "query req (lit ''name'') = Some name"
  shows "serve app req =
    Some \<lparr>status = 200, body = Json [lit ''message'' \<mapsto> lit ''hello '' @ name]\<rparr>"
  using assms health_neq_hello
  by (simp add: serve_def routes_app matches_def hello_def)

lemma serve_hello_absent:
  assumes "meth req = GET" and "path req = lit ''/hello''" and "query req (lit ''name'') = None"
  shows "serve app req =
    Some \<lparr>status = 422, body = Detail [missing (lit ''name'')]\<rparr>"
  using assms health_neq_hello
  by (simp add: serve_def routes_app matches_def)

lemma serve_unrouted:
  assumes "\<not> (meth req = GET \<and> (path req = lit ''/health'' \<or> path req = lit ''/hello''))"
  shows "serve app req = None"
  using assms by (auto simp: serve_def routes_app matches_def)

subsection \<open>The greeting\<close>

text \<open>
  C1. For every non-empty string \<open>name\<close> supplied as the query parameter \<open>name\<close>, a
  GET request for \<open>/hello\<close> is answered with status 200 and the body
  \<open>{"message": "hello <name>"}\<close>: the message is the fixed prefix \<open>hello\<close> and a
  space, followed by the supplied value.
\<close>

theorem hello_greets_name:
  assumes "name \<noteq> []"
    and "meth req = GET" and "path req = lit ''/hello''"
    and "query req (lit ''name'') = Some name"
  shows "serve app req =
    Some \<lparr>status = 200, body = Json [lit ''message'' \<mapsto> lit ''hello '' @ name]\<rparr>"
  using assms by (simp add: serve_hello_present)

theorem hello_greets_name_witness:
  "lit ''Ada'' \<noteq> []
   \<and> serve app \<lparr>meth = GET, path = lit ''/hello'', query = [lit ''name'' \<mapsto> lit ''Ada'']\<rparr>
     = Some \<lparr>status = 200, body = Json [lit ''message'' \<mapsto> lit ''hello Ada'']\<rparr>"
  using hello_greets_name [of "lit ''Ada''"
      "\<lparr>meth = GET, path = lit ''/hello'', query = [lit ''name'' \<mapsto> lit ''Ada'']\<rparr>"]
  by (simp add: lit_def)

text \<open>
  C6. When the parameter \<open>name\<close> is supplied with the empty string as its value
  (\<open>GET /hello?name=\<close>), the request is accepted: status 200 and the body
  \<open>{"message": "hello "}\<close>, the prefix alone.
\<close>

theorem hello_accepts_empty_name:
  assumes "meth req = GET" and "path req = lit ''/hello''"
    and "query req (lit ''name'') = Some []"
  shows "serve app req =
    Some \<lparr>status = 200, body = Json [lit ''message'' \<mapsto> lit ''hello '']\<rparr>"
  using assms by (simp add: serve_hello_present)

theorem hello_accepts_empty_name_witness:
  "serve app \<lparr>meth = GET, path = lit ''/hello'', query = [lit ''name'' \<mapsto> []]\<rparr>
     = Some \<lparr>status = 200, body = Json [lit ''message'' \<mapsto> lit ''hello '']\<rparr>"
  using hello_accepts_empty_name
          [of "\<lparr>meth = GET, path = lit ''/hello'', query = [lit ''name'' \<mapsto> []]\<rparr>"]
  by (simp add: lit_def)

text \<open>
  C9. The greeting round-trips and is injective: dropping the first six characters of
  the message gives back the name, those six characters are the prefix, the message
  is six characters longer than the name whatever its length, and two calls return
  equal dictionaries exactly when they were given equal names.
\<close>

theorem greeting_roundtrip_injective:
  "map_option (drop 6) (hello name (lit ''message'')) = Some name
   \<and> map_option (take 6) (hello name (lit ''message'')) = Some (lit ''hello '')
   \<and> map_option length (hello name (lit ''message'')) = Some (6 + length name)
   \<and> (hello a = hello b \<longleftrightarrow> a = b)"
proof -
  have len: "length (lit ''hello '') = 6" by (simp add: lit_def)
  have "a = b" if "hello a = hello b"
  proof -
    from that
    have "[lit ''message'' \<mapsto> lit ''hello '' @ a] = [lit ''message'' \<mapsto> lit ''hello '' @ b]"
      by (simp add: hello_def)
    then have "lit ''hello '' @ a = lit ''hello '' @ b" by (rule map_upd_eqD1)
    then show "a = b" by simp
  qed
  then have "hello a = hello b \<longleftrightarrow> a = b" by blast
  with len show ?thesis by (simp add: hello_def)
qed

theorem greeting_roundtrip_injective_witness:
  "map_option (drop 6) (hello (lit '' Ada  '') (lit ''message'')) = Some (lit '' Ada  '')
   \<and> hello (lit ''Ada'') \<noteq> hello (lit ''ada'')"
  using greeting_roundtrip_injective [of "lit '' Ada  ''"]
        greeting_roundtrip_injective [of _ "lit ''Ada''" "lit ''ada''"]
  by (simp add: lit_def)

subsection \<open>The missing parameter\<close>

text \<open>
  C2. Every GET request for \<open>/hello\<close> that omits the query parameter \<open>name\<close> is
  answered with status 422 and a validation error whose first detail entry has the
  message \<open>Field required\<close>.
\<close>

theorem hello_without_name_is_rejected:
  assumes "meth req = GET" and "path req = lit ''/hello''"
    and "query req (lit ''name'') = None"
  shows "\<exists>e es. serve app req = Some \<lparr>status = 422, body = Detail (e # es)\<rparr>
           \<and> msg e = lit ''Field required''"
  using assms by (simp add: serve_hello_absent missing_def)

theorem hello_without_name_is_rejected_witness:
  "\<exists>e es. serve app \<lparr>meth = GET, path = lit ''/hello'', query = Map.empty\<rparr>
       = Some \<lparr>status = 422, body = Detail (e # es)\<rparr> \<and> msg e = lit ''Field required''"
  using hello_without_name_is_rejected
          [of "\<lparr>meth = GET, path = lit ''/hello'', query = Map.empty\<rparr>"]
  by simp

text \<open>
  C4. The greeting endpoint fails with a validation error if and only if the parameter
  \<open>name\<close> is missing, and succeeds if and only if it is there; and no request that
  the application answers gets anything but status 200 except a GET request for
  \<open>/hello\<close> without \<open>name\<close>, which gets 422.
\<close>

theorem validation_error_iff_name_missing:
  fixes req :: "'a request_scheme"
  assumes "meth req = GET" and "path req = lit ''/hello''"
  shows "((\<exists>errs. serve app req = Some \<lparr>status = 422, body = Detail errs\<rparr>)
            \<longleftrightarrow> query req (lit ''name'') = None)
       \<and> ((\<exists>d. serve app req = Some \<lparr>status = 200, body = Json d\<rparr>)
            \<longleftrightarrow> query req (lit ''name'') \<noteq> None)
       \<and> (\<forall>(other :: 'a request_scheme) r.
            serve app other = Some r \<and> status r \<noteq> 200 \<longrightarrow>
              status r = 422 \<and> meth other = GET \<and> path other = lit ''/hello''
              \<and> query other (lit ''name'') = None)"
proof -
  have here: "serve app req =
      (case query req (lit ''name'') of
         None \<Rightarrow> Some \<lparr>status = 422, body = Detail [missing (lit ''name'')]\<rparr>
       | Some name \<Rightarrow> Some \<lparr>status = 200, body = Json [lit ''message'' \<mapsto> lit ''hello '' @ name]\<rparr>)"
    using assms by (simp add: serve_hello_present serve_hello_absent split: option.split)
  have elsewhere: "status r = 422 \<and> meth other = GET \<and> path other = lit ''/hello''
      \<and> query other (lit ''name'') = None"
    if ans: "serve app other = Some r" and err: "status r \<noteq> 200"
    for other :: "'a request_scheme" and r
  proof (cases "meth other = GET \<and> (path other = lit ''/health'' \<or> path other = lit ''/hello'')")
    case False
    with ans show ?thesis by (simp add: serve_unrouted)
  next
    case True
    show ?thesis
    proof (cases "path other = lit ''/health''")
      case True
      with \<open>meth other = GET \<and> _\<close> ans err show ?thesis by (auto simp: serve_health)
    next
      case False
      with True have hello: "meth other = GET" "path other = lit ''/hello''" by simp_all
      show ?thesis
      proof (cases "query other (lit ''name'')")
        case None
        with hello ans show ?thesis by (auto simp: serve_hello_absent)
      next
        case (Some name)
        with hello ans err show ?thesis by (auto simp: serve_hello_present)
      qed
    qed
  qed
  from here have "(\<exists>errs. serve app req = Some \<lparr>status = 422, body = Detail errs\<rparr>)
            \<longleftrightarrow> query req (lit ''name'') = None"
    by (simp split: option.split)
  moreover from here have "(\<exists>d. serve app req = Some \<lparr>status = 200, body = Json d\<rparr>)
            \<longleftrightarrow> query req (lit ''name'') \<noteq> None"
    by (simp split: option.split)
  ultimately show ?thesis using elsewhere by blast
qed

theorem validation_error_iff_name_missing_witness:
  "(\<exists>errs. serve app \<lparr>meth = GET, path = lit ''/hello'', query = Map.empty\<rparr>
       = Some \<lparr>status = 422, body = Detail errs\<rparr>)
   \<and> (\<exists>d. serve app \<lparr>meth = GET, path = lit ''/hello'', query = [lit ''name'' \<mapsto> lit ''Ada'']\<rparr>
       = Some \<lparr>status = 200, body = Json d\<rparr>)"
  using validation_error_iff_name_missing
          [of "\<lparr>meth = GET, path = lit ''/hello'', query = Map.empty\<rparr>"]
        validation_error_iff_name_missing
          [of "\<lparr>meth = GET, path = lit ''/hello'', query = [lit ''name'' \<mapsto> lit ''Ada'']\<rparr>"]
  by simp

subsection \<open>The health check\<close>

text \<open>
  C3. Every GET request for \<open>/health\<close>, whatever else it carries (its query
  parameters, any further content of the request), is answered with status 200 and
  the body \<open>{"status": "ok"}\<close>.
\<close>

theorem health_is_ok:
  assumes "meth req = GET" and "path req = lit ''/health''"
  shows "serve app req = Some \<lparr>status = 200, body = Json [lit ''status'' \<mapsto> lit ''ok'']\<rparr>"
  using assms by (simp add: serve_health)

theorem health_is_ok_witness:
  "serve app \<lparr>meth = GET, path = lit ''/health'', query = [lit ''name'' \<mapsto> lit ''Ada'']\<rparr>
     = Some \<lparr>status = 200, body = Json [lit ''status'' \<mapsto> lit ''ok'']\<rparr>"
  using health_is_ok
          [of "\<lparr>meth = GET, path = lit ''/health'', query = [lit ''name'' \<mapsto> lit ''Ada'']\<rparr>"]
  by simp

subsection \<open>The route table\<close>

text \<open>
  C8. The application defines exactly two routes, GET \<open>/health\<close> and GET \<open>/hello\<close>:
  the table lists these two, a method and a path find a route in it exactly when they
  are one of the two pairs, and a request is passed to a handler exactly then.
\<close>

theorem route_table_is_health_and_hello:
  "map (\<lambda>r. (rmethod r, rpath r, endpoint r)) (routes app)
     = [(GET, lit ''/health'', Health), (GET, lit ''/hello'', Hello)]
   \<and> (find (\<lambda>r. rmethod r = m \<and> rpath r = p) (routes app) = None
        \<longleftrightarrow> \<not> (m = GET \<and> (p = lit ''/health'' \<or> p = lit ''/hello'')))
   \<and> (serve app req = None
        \<longleftrightarrow> \<not> (meth req = GET \<and> (path req = lit ''/health'' \<or> path req = lit ''/hello'')))"
proof -
  have served: "serve app req \<noteq> None"
    if "meth req = GET \<and> (path req = lit ''/health'' \<or> path req = lit ''/hello'')"
    using that health_neq_hello
    by (auto simp: serve_def routes_app matches_def health_def hello_def split: option.split)
  have "serve app req = None
        \<longleftrightarrow> \<not> (meth req = GET \<and> (path req = lit ''/health'' \<or> path req = lit ''/hello''))"
    using served serve_unrouted [of req] by auto
  then show ?thesis by (auto simp: routes_app)
qed

theorem route_table_is_health_and_hello_witness:
  "find (\<lambda>r. rmethod r = POST \<and> rpath r = lit ''/hello'') (routes app) = None
   \<and> find (\<lambda>r. rmethod r = GET \<and> rpath r = lit ''/hello'') (routes app) \<noteq> None
   \<and> serve app \<lparr>meth = GET, path = lit ''/docs'', query = Map.empty\<rparr> = None"
  using route_table_is_health_and_hello
          [of POST "lit ''/hello''" "\<lparr>meth = GET, path = lit ''/docs'', query = Map.empty\<rparr>"]
        route_table_is_health_and_hello
          [of GET "lit ''/hello''" "\<lparr>meth = GET, path = lit ''/docs'', query = Map.empty\<rparr>"]
  by (simp add: lit_def)

end
